theory Spec2Isabelle
  imports Complex_Main
begin

section \<open>Python values, strings and messages\<close>

text \<open>
  The protection service of \<^verbatim>\<open>app/services/protection_service.py\<close> is embedded as
  pure functions. Conventions of the embedding:
  \<^item> a Python \<^verbatim>\<open>float\<close> is a \<^typ>\<open>real\<close> (no rounding, no NaN, no infinity); timestamps
    are seconds as reals;
  \<^item> a Python \<^verbatim>\<open>str\<close> is a \<^typ>\<open>string\<close> whose characters are the code points 0..255
    (the Latin-1 range, which holds every literal of the source: \<^verbatim>\<open>CHR 0xED\<close> is the
    i with acute accent of the rate-limit message);
  \<^item> the values a form or a JSON reply can hold are the scalars of \<open>pyval\<close>;
  \<^item> an f-string is the list of its pieces: literal text, and the numbers it
    interpolates, each tagged with the conversion the source applies to it.
\<close>

datatype pyval = PyNone | PyBool bool | PyInt int | PyFloat real | PyStr string

datatype py_error = TypeError | ValueError | AttributeError | StatisticsError | DatabaseError

text \<open>Truth value testing, as used by \<^verbatim>\<open>if not token\<close> and \<^verbatim>\<open>if success\<close>.\<close>

fun truthy :: "pyval \<Rightarrow> bool" where
  "truthy PyNone = False"
| "truthy (PyBool b) = b"
| "truthy (PyInt i) = (i \<noteq> 0)"
| "truthy (PyFloat x) = (x \<noteq> 0)"
| "truthy (PyStr s) = (s \<noteq> [])"

datatype piece =
    Txt string  \<comment> \<open>literal text\<close>
  | Num int     \<comment> \<open>\<^verbatim>\<open>{n}\<close> of an int\<close>
  | Flt real    \<comment> \<open>\<^verbatim>\<open>{x}\<close> of a float, printed by \<^verbatim>\<open>str\<close>\<close>
  | Flt2 real   \<comment> \<open>\<^verbatim>\<open>{x:.2f}\<close>\<close>

type_synonym message = "piece list"

text \<open>Decimal digits of an int, as \<^verbatim>\<open>str(n)\<close> prints them.\<close>

fun digits_of :: "nat \<Rightarrow> string" where
  "digits_of n =
     (if n < 10 then [char_of (48 + n)]
      else digits_of (n div 10) @ [char_of (48 + n mod 10)])"

declare digits_of.simps [simp del]

definition str_int :: "int \<Rightarrow> string" where
  "str_int i = (if i < 0 then CHR ''-'' # digits_of (nat (- i)) else digits_of (nat i))"

text \<open>
  The text of a message. How Python prints a float is not part of the embedding: the
  two float conversions are arguments.
\<close>

fun render_piece :: "(real \<Rightarrow> string) \<Rightarrow> (real \<Rightarrow> string) \<Rightarrow> piece \<Rightarrow> string" where
  "render_piece str_float fmt2 (Txt s) = s"
| "render_piece str_float fmt2 (Num i) = str_int i"
| "render_piece str_float fmt2 (Flt x) = str_float x"
| "render_piece str_float fmt2 (Flt2 x) = fmt2 x"

definition render :: "(real \<Rightarrow> string) \<Rightarrow> (real \<Rightarrow> string) \<Rightarrow> message \<Rightarrow> string" where
  "render str_float fmt2 m = concat (map (render_piece str_float fmt2) m)"

section \<open>Configuration (app/config.py)\<close>

record price_range =
  range_min :: real
  range_max :: real

record settings =
  recaptcha_secret_key :: string
  price_reports_per_hour :: int
  reviews_per_day :: int
  price_tolerance_percent :: real
  min_samples_for_validation :: int
  price_data_freshness_days :: int
  fallback_price_ranges :: "(string \<times> price_range) list"

text \<open>The defaults of class \<^verbatim>\<open>Settings\<close>.\<close>

definition default_settings :: settings where
  "default_settings =
     \<lparr> recaptcha_secret_key = '''',
       price_reports_per_hour = 3,
       reviews_per_day = 2,
       price_tolerance_percent = 15,
       min_samples_for_validation = 5,
       price_data_freshness_days = 30,
       fallback_price_ranges =
         [(''magna'', \<lparr>range_min = 15, range_max = 35\<rparr>),
          (''premium'', \<lparr>range_min = 18, range_max = 40\<rparr>),
          (''diesel'', \<lparr>range_min = 16, range_max = 38\<rparr>)] \<rparr>"

section \<open>The service object\<close>

text \<open>
  \<^verbatim>\<open>ProtectionService.__init__\<close>: the two \<^verbatim>\<open>defaultdict(deque)\<close> windows (a total
  function from the client address to its deque, empty by default) and the values
  copied from the settings at construction.
\<close>

record protection_service =
  price_reports :: "string \<Rightarrow> real list"
  reviews :: "string \<Rightarrow> real list"
  recaptcha_secret :: string
  price_tolerance :: real
  min_samples :: int
  freshness_days :: int
  fallback_ranges :: "(string \<times> price_range) list"

definition init_service :: "settings \<Rightarrow> protection_service" where
  "init_service cfg =
     \<lparr> price_reports = (\<lambda>ip. []),
       reviews = (\<lambda>ip. []),
       recaptcha_secret = recaptcha_secret_key cfg,
       price_tolerance = price_tolerance_percent cfg / 100,
       min_samples = min_samples_for_validation cfg,
       freshness_days = price_data_freshness_days cfg,
       fallback_ranges = fallback_price_ranges cfg \<rparr>"

section \<open>Rate limiting\<close>

text \<open>
  The loop \<^verbatim>\<open>while dq and dq[0] < cutoff: dq.popleft()\<close>: it stops at the first entry
  that is not older than the cutoff, whatever follows it.
\<close>

fun popleft_old :: "real \<Rightarrow> real list \<Rightarrow> real list" where
  "popleft_old cutoff [] = []"
| "popleft_old cutoff (t # dq) = (if t < cutoff then popleft_old cutoff dq else t # dq)"

definition rate_limit_ok :: message where
  "rate_limit_ok = [Txt ''Rate limit OK'']"

definition price_limit_exceeded :: "int \<Rightarrow> int \<Rightarrow> message" where
  "price_limit_exceeded current_count limit =
     [Txt (''L'' @ CHR 0xED # ''mite excedido: ''), Num current_count, Txt ''/'', Num limit,
      Txt '' reportes por hora'']"

definition review_limit_exceeded :: "int \<Rightarrow> int \<Rightarrow> message" where
  "review_limit_exceeded current_count limit =
     [Txt (''L'' @ CHR 0xED # ''mite excedido: ''), Num current_count, Txt ''/'', Num limit,
      Txt ('' rese'' @ CHR 0xF1 # ''as por d'' @ CHR 0xED # ''a'')]"

text \<open>
  \<^verbatim>\<open>check_price_report_rate_limit\<close>; \<open>now\<close> is the reading of the clock. The pruned
  deque is stored on both branches, the new timestamp only on the accepting one.
\<close>

definition check_price_report_rate_limit ::
  "settings \<Rightarrow> real \<Rightarrow> protection_service \<Rightarrow> string \<Rightarrow> (bool \<times> message) \<times> protection_service"
where
  "check_price_report_rate_limit cfg now self ip =
     (let cutoff = now - 3600;
          dq = popleft_old cutoff (price_reports self ip);
          current_count = int (length dq)
      in if current_count \<ge> price_reports_per_hour cfg
         then ((False, price_limit_exceeded current_count (price_reports_per_hour cfg)),
               self\<lparr>price_reports := (price_reports self)(ip := dq)\<rparr>)
         else ((True, rate_limit_ok),
               self\<lparr>price_reports := (price_reports self)(ip := dq @ [now])\<rparr>))"

text \<open>\<^verbatim>\<open>check_review_rate_limit\<close>: the same over the review windows, one day long.\<close>

definition check_review_rate_limit ::
  "settings \<Rightarrow> real \<Rightarrow> protection_service \<Rightarrow> string \<Rightarrow> (bool \<times> message) \<times> protection_service"
where
  "check_review_rate_limit cfg now self ip =
     (let cutoff = now - 86400;
          dq = popleft_old cutoff (reviews self ip);
          current_count = int (length dq)
      in if current_count \<ge> reviews_per_day cfg
         then ((False, review_limit_exceeded current_count (reviews_per_day cfg)),
               self\<lparr>reviews := (reviews self)(ip := dq)\<rparr>)
         else ((True, rate_limit_ok),
               self\<lparr>reviews := (reviews self)(ip := dq @ [now])\<rparr>))"



section \<open>Attestation (reCAPTCHA)\<close>

text \<open>
  The verification endpoint is outside the program. It is a function from the posted
  form to what comes back: the request fails (any exception of the HTTP client, the
  timeout included), or a response arrives with a status and a body; the body either
  decodes to a JSON object or does not (\<^verbatim>\<open>response.json()\<close> raises, or the value has
  no \<^verbatim>\<open>get\<close>).
\<close>

type_synonym payload = "(string \<times> pyval) list"

datatype http_body = Undecodable | JsonObject "(string \<times> pyval) list"

datatype http_outcome = RequestFailed | Response int http_body

definition token_required :: message where
  "token_required = [Txt ''Token CAPTCHA requerido'']"

definition bypassed :: message where
  "bypassed = [Txt ''Bypassed in development'']"

definition score_too_low :: message where
  "score_too_low = [Txt ''Score CAPTCHA muy bajo'']"

definition captcha_verified :: message where
  "captcha_verified = [Txt ''CAPTCHA verificado'']"

definition captcha_invalid :: message where
  "captcha_invalid = [Txt (''CAPTCHA inv'' @ CHR 0xE1 # ''lido'')]"

definition captcha_error :: message where
  "captcha_error = [Txt ''Error verificando CAPTCHA'']"

text \<open>
  \<^verbatim>\<open>score < 0.5\<close> for a score that is not \<^verbatim>\<open>None\<close>: a number is compared, a string
  raises \<^verbatim>\<open>TypeError\<close>.
\<close>

fun score_below_half :: "pyval \<Rightarrow> py_error + bool" where
  "score_below_half PyNone = Inr False"
| "score_below_half (PyBool b) = Inr ((if b then 1 else 0 :: real) < 1 / 2)"
| "score_below_half (PyInt i) = Inr (real_of_int i < 1 / 2)"
| "score_below_half (PyFloat x) = Inr (x < 1 / 2)"
| "score_below_half (PyStr s) = Inl TypeError"

text \<open>The part of \<^verbatim>\<open>verify_recaptcha\<close> that reads the reply; every exception ends in the
  \<^verbatim>\<open>except Exception\<close> clause.\<close>

definition interpret_reply :: "http_outcome \<Rightarrow> bool \<times> message" where
  "interpret_reply outcome =
     (case outcome of
        RequestFailed \<Rightarrow> (False, captcha_error)
      | Response status body \<Rightarrow>
          if status = 200 then
            (case body of
               Undecodable \<Rightarrow> (False, captcha_error)
             | JsonObject result \<Rightarrow>
                 let success = (case map_of result ''success'' of None \<Rightarrow> PyBool False | Some v \<Rightarrow> v)
                 in if truthy success then
                      (let score = (case map_of result ''score'' of None \<Rightarrow> PyNone | Some v \<Rightarrow> v)
                       in case score_below_half score of
                            Inl e \<Rightarrow> (False, captcha_error)
                          | Inr True \<Rightarrow> (False, score_too_low)
                          | Inr False \<Rightarrow> (True, captcha_verified))
                    else (False, captcha_invalid))
          else (False, captcha_error))"

text \<open>
  \<^verbatim>\<open>verify_recaptcha\<close>. The second component of the result lists the requests that the
  call has posted to the endpoint, in order.
\<close>

definition verify_recaptcha ::
  "protection_service \<Rightarrow> (payload \<Rightarrow> http_outcome) \<Rightarrow> pyval \<Rightarrow> string option
     \<Rightarrow> (bool \<times> message) \<times> payload list"
where
  "verify_recaptcha self endpoint token user_ip =
     (if \<not> truthy token then ((False, token_required), [])
      else if recaptcha_secret self = [] then ((True, bypassed), [])
      else
        let payload = [(''secret'', PyStr (recaptcha_secret self)), (''response'', token)] @
                      (case user_ip of
                         None \<Rightarrow> []
                       | Some ip \<Rightarrow> if ip \<noteq> [] then [(''remoteip'', PyStr ip)] else [])
        in (interpret_reply (endpoint payload), [payload]))"

section \<open>The price samples (persistence collaborator)\<close>

text \<open>
  A row of \<^verbatim>\<open>gas_prices\<close> with the columns the query reads, and the \<^verbatim>\<open>state\<close> of the
  station it joins to (\<open>None\<close> when that column is NULL). The database engine's
  case-insensitive \<^verbatim>\<open>ILIKE\<close> is a component of the database, and so is whether
  executing a query on it raises.
\<close>

record gas_price =
  gp_fuel_type :: string
  gp_price :: real
  gp_created_at :: real
  gp_is_current :: bool
  gp_validation_status :: string
  gp_station_state :: "string option"

record database =
  gas_prices :: "gas_price list"
  ilike :: "string \<Rightarrow> string \<Rightarrow> bool"
  db_fails :: bool

datatype session_object = AsyncGenerator database | AsyncContextManager database

text \<open>
  \<^verbatim>\<open>get_async_session\<close> of \<^verbatim>\<open>app/database.py\<close> is a bare \<^verbatim>\<open>async def\<close> with a
  \<^verbatim>\<open>yield\<close>: calling it returns an async generator object. (Wrapped by
  \<^verbatim>\<open>contextlib.asynccontextmanager\<close> it would return a context manager, the second
  constructor; the repository does not wrap it.)
\<close>

definition get_async_session :: "database \<Rightarrow> session_object" where
  "get_async_session db = AsyncGenerator db"

text \<open>
  \<^verbatim>\<open>async with obj as session\<close>: an async generator object has no \<^verbatim>\<open>__aenter__\<close>, so
  the statement raises \<^verbatim>\<open>TypeError\<close> before its body runs; a context manager yields the
  session.
\<close>

fun async_with :: "session_object \<Rightarrow> py_error + database" where
  "async_with (AsyncGenerator db) = Inl TypeError"
| "async_with (AsyncContextManager db) = Inr db"

text \<open>\<^verbatim>\<open>str.lower\<close> on the code points 0..255: A-Z and the accented capitals move up by 32.\<close>

definition lower_char :: "char \<Rightarrow> char" where
  "lower_char c =
     (let n = (of_char c :: nat)
      in if (65 \<le> n \<and> n \<le> 90) \<or> (192 \<le> n \<and> n \<le> 214) \<or> (216 \<le> n \<and> n \<le> 222)
         then char_of (n + 32) else c)"

definition lower :: "string \<Rightarrow> string" where
  "lower s = map lower_char s"

text \<open>
  The query of \<^verbatim>\<open>validate_price_dynamically\<close>: the four conditions of the \<^verbatim>\<open>where\<close>
  clause and, when a non-empty region is given, the join with the station and the
  \<^verbatim>\<open>ilike\<close> on its state. \<open>fuel\<close> is the compared value, already lowercased by the caller.
\<close>

definition select_prices :: "database \<Rightarrow> string \<Rightarrow> real \<Rightarrow> string option \<Rightarrow> real list" where
  "select_prices session fuel cutoff_date region =
     map gp_price
       (filter (\<lambda>row.
           gp_fuel_type row = fuel \<and>
           gp_created_at row \<ge> cutoff_date \<and>
           gp_is_current row \<and>
           gp_validation_status row = ''validated'' \<and>
           (case region of
              None \<Rightarrow> True
            | Some r \<Rightarrow>
                if r = [] then True
                else (case gp_station_state row of
                        None \<Rightarrow> False
                      | Some st \<Rightarrow> ilike session st (''%'' @ r @ ''%''))))
         (gas_prices session))"

text \<open>\<^verbatim>\<open>session.execute(query)\<close> and the list of the fetched prices.\<close>

definition execute_query ::
  "database \<Rightarrow> string \<Rightarrow> real \<Rightarrow> string option \<Rightarrow> py_error + real list"
where
  "execute_query session fuel cutoff_date region =
     (if db_fails session then Inl DatabaseError
      else Inr (select_prices session fuel cutoff_date region))"

section \<open>Price validation\<close>

text \<open>The diagnostics dictionary: keys in insertion order, nested dictionaries as values.\<close>

datatype info = InfoNum real | InfoInt int | InfoBool bool | InfoDict "(string \<times> info) list"

type_synonym validation_info = "(string \<times> info) list"

text \<open>\<^verbatim>\<open>statistics.mean\<close>: the exact mean; \<^verbatim>\<open>StatisticsError\<close> on no data.\<close>

definition mean :: "real list \<Rightarrow> py_error + real" where
  "mean xs = (if xs = [] then Inl StatisticsError else Inr (sum_list xs / real (length xs)))"

text \<open>\<^verbatim>\<open>round(x, 2)\<close>: to the nearest hundredth, a tie to the even one.\<close>

definition round_half_even :: "real \<Rightarrow> int" where
  "round_half_even y =
     (let f = \<lfloor>y\<rfloor>; d = y - real_of_int f
      in if d < 1 / 2 then f else if d > 1 / 2 then f + 1 else if even f then f else f + 1)"

definition round2 :: "real \<Rightarrow> real" where
  "round2 x = real_of_int (round_half_even (x * 100)) / 100"

definition no_limits_defined :: message where
  "no_limits_defined = [Txt (''No hay l'' @ CHR 0xED # ''mites definidos para este combustible'')]"

definition fallback_valid :: message where
  "fallback_valid = [Txt (''Precio v'' @ CHR 0xE1 # ''lido (modo fallback)'')]"

definition outside_fallback_range :: "real \<Rightarrow> real \<Rightarrow> message" where
  "outside_fallback_range min_price max_price =
     [Txt ''Precio fuera del rango fallback ($'', Flt min_price, Txt '' - $'', Flt max_price,
      Txt '')'']"

definition within_market_range :: message where
  "within_market_range = [Txt ''Precio dentro del rango de mercado'']"

definition outside_market_range :: "real \<Rightarrow> real \<Rightarrow> message" where
  "outside_market_range min_valid max_valid =
     [Txt (''Precio fuera del rango v'' @ CHR 0xE1 # ''lido ($''), Flt2 min_valid, Txt '' - $'',
      Flt2 max_valid, Txt '')'']"

text \<open>\<^verbatim>\<open>_validate_with_fallback\<close>: the static range of the lowercased fuel type.\<close>

definition validate_with_fallback ::
  "protection_service \<Rightarrow> string \<Rightarrow> real \<Rightarrow> bool \<times> message \<times> validation_info"
where
  "validate_with_fallback self fuel_type reported_price =
     (case map_of (fallback_ranges self) (lower fuel_type) of
        None \<Rightarrow> (True, no_limits_defined, [])
      | Some ranges \<Rightarrow>
          let min_price = range_min ranges;
              max_price = range_max ranges;
              is_valid = (min_price \<le> reported_price \<and> reported_price \<le> max_price);
              validation_info =
                [(''fallback_mode'', InfoBool True),
                 (''valid_range'',
                    InfoDict [(''min'', InfoNum min_price), (''max'', InfoNum max_price)]),
                 (''reported_price'', InfoNum reported_price)]
          in if is_valid then (True, fallback_valid, validation_info)
             else (False, outside_fallback_range min_price max_price, validation_info))"

text \<open>
  The body of the \<^verbatim>\<open>async with\<close> block of \<^verbatim>\<open>validate_price_dynamically\<close>, for an open
  session. \<open>Inl\<close> is an exception leaving the block: a failing query, or the mean of no
  samples, which the block reaches when \<open>min_samples\<close> is not positive.
\<close>

definition validate_in_session ::
  "protection_service \<Rightarrow> database \<Rightarrow> real \<Rightarrow> string \<Rightarrow> real \<Rightarrow> string option
     \<Rightarrow> py_error + (bool \<times> message \<times> validation_info)"
where
  "validate_in_session self session now fuel_type reported_price region =
     (let cutoff_date = now - real_of_int (freshness_days self) * 86400
      in case execute_query session (lower fuel_type) cutoff_date region of
           Inl e \<Rightarrow> Inl e
         | Inr prices \<Rightarrow>
             if int (length prices) < min_samples self
             then Inr (validate_with_fallback self fuel_type reported_price)
             else
               (case mean prices of
                  Inl e \<Rightarrow> Inl e
                | Inr market_avg \<Rightarrow>
                    let tolerance = price_tolerance self;
                        min_valid = market_avg * (1 - tolerance);
                        max_valid = market_avg * (1 + tolerance);
                        is_valid = (min_valid \<le> reported_price \<and> reported_price \<le> max_valid);
                        validation_info =
                          [(''market_average'', InfoNum (round2 market_avg)),
                           (''tolerance_percent'', InfoNum (price_tolerance self * 100)),
                           (''valid_range'',
                              InfoDict [(''min'', InfoNum (round2 min_valid)),
                                        (''max'', InfoNum (round2 max_valid))]),
                           (''samples_count'', InfoInt (int (length prices))),
                           (''reported_price'', InfoNum reported_price)]
                    in if is_valid then Inr (True, within_market_range, validation_info)
                       else Inr (False, outside_market_range min_valid max_valid,
                                 validation_info)))"

text \<open>
  \<^verbatim>\<open>validate_price_dynamically\<close>: the \<^verbatim>\<open>try\<close> around the \<^verbatim>\<open>async with\<close>; any exception,
  from entering the block or from its body, ends in the fallback validation.
\<close>

definition validate_price_dynamically ::
  "protection_service \<Rightarrow> database \<Rightarrow> real \<Rightarrow> string \<Rightarrow> real \<Rightarrow> string option
     \<Rightarrow> bool \<times> message \<times> validation_info"
where
  "validate_price_dynamically self db now fuel_type reported_price region =
     (case async_with (get_async_session db) of
        Inl e \<Rightarrow> validate_with_fallback self fuel_type reported_price
      | Inr session \<Rightarrow>
          (case validate_in_session self session now fuel_type reported_price region of
             Inl e \<Rightarrow> validate_with_fallback self fuel_type reported_price
           | Inr result \<Rightarrow> result))"

section \<open>The admission pipelines\<close>

text \<open>
  What surrounds one evaluation: the clock readings (one by the rate limiter, one by the
  price query), the verification endpoint, the database, and Python's own parsers of a
  number written in a string, \<^verbatim>\<open>float(s)\<close> and \<^verbatim>\<open>int(s)\<close> (\<open>None\<close>: \<^verbatim>\<open>ValueError\<close>).
\<close>

record environment =
  clock :: real
  query_clock :: real
  endpoint :: "payload \<Rightarrow> http_outcome"
  db :: database
  float_of_str :: "string \<Rightarrow> real option"
  int_of_str :: "string \<Rightarrow> int option"

text \<open>\<^verbatim>\<open>float(v)\<close> and \<^verbatim>\<open>int(v)\<close> on a form value.\<close>

fun py_float :: "(string \<Rightarrow> real option) \<Rightarrow> pyval \<Rightarrow> py_error + real" where
  "py_float parse PyNone = Inl TypeError"
| "py_float parse (PyBool b) = Inr (if b then 1 else 0)"
| "py_float parse (PyInt i) = Inr (real_of_int i)"
| "py_float parse (PyFloat x) = Inr x"
| "py_float parse (PyStr s) = (case parse s of None \<Rightarrow> Inl ValueError | Some x \<Rightarrow> Inr x)"

fun py_int :: "(string \<Rightarrow> int option) \<Rightarrow> pyval \<Rightarrow> py_error + int" where
  "py_int parse PyNone = Inl TypeError"
| "py_int parse (PyBool b) = Inr (if b then 1 else 0)"
| "py_int parse (PyInt i) = Inr i"
| "py_int parse (PyFloat x) = Inr (if x \<ge> 0 then \<lfloor>x\<rfloor> else \<lceil>x\<rceil>)"
| "py_int parse (PyStr s) = (case parse s of None \<Rightarrow> Inl ValueError | Some i \<Rightarrow> Inr i)"

text \<open>\<^verbatim>\<open>str.strip\<close>: the whitespace code points below 256.\<close>

definition is_space :: "char \<Rightarrow> bool" where
  "is_space c =
     (let n = (of_char c :: nat)
      in (9 \<le> n \<and> n \<le> 13) \<or> (28 \<le> n \<and> n \<le> 32) \<or> n = 133 \<or> n = 160)"

definition strip :: "string \<Rightarrow> string" where
  "strip s = rev (dropWhile is_space (rev (dropWhile is_space s)))"

text \<open>\<^verbatim>\<open>form_data.get(key, default)\<close>.\<close>

definition get_or :: "(string \<rightharpoonup> pyval) \<Rightarrow> string \<Rightarrow> pyval \<Rightarrow> pyval" where
  "get_or form_data key dflt = (case form_data key of None \<Rightarrow> dflt | Some v \<Rightarrow> v)"

definition invalid_price :: message where
  "invalid_price = [Txt (''Precio inv'' @ CHR 0xE1 # ''lido'')]"

definition all_passed :: message where
  "all_passed = [Txt ''Todas las validaciones pasaron'']"

definition name_too_short :: message where
  "name_too_short = [Txt (''Nombre muy corto (m'' @ CHR 0xED # ''nimo 2 caracteres)'')]"

definition comment_too_short :: message where
  "comment_too_short = [Txt (''Comentario muy corto (m'' @ CHR 0xED # ''nimo 10 caracteres)'')]"

definition rating_out_of_range :: message where
  "rating_out_of_range = [Txt (''Calificaci'' @ CHR 0xF3 # ''n debe estar entre 1 y 5'')]"

definition rating_invalid :: message where
  "rating_invalid = [Txt (''Calificaci'' @ CHR 0xF3 # ''n inv'' @ CHR 0xE1 # ''lida'')]"

text \<open>
  \<^verbatim>\<open>validate_price_report\<close>. The result is the returned pair, or the exception that
  leaves the function (\<^verbatim>\<open>fuel_type.lower()\<close> on a value that is not a string); with it
  come the service after the call and the requests posted to the endpoint.
\<close>

definition validate_price_report ::
  "settings \<Rightarrow> environment \<Rightarrow> protection_service \<Rightarrow> (string \<rightharpoonup> pyval) \<Rightarrow> string
     \<Rightarrow> (py_error + bool \<times> message) \<times> protection_service \<times> payload list"
where
  "validate_price_report cfg env self form_data request_ip =
     (let captcha_token = get_or form_data ''g-recaptcha-response'' PyNone;
          ((captcha_valid, captcha_msg), posted) =
             verify_recaptcha self (endpoint env) captcha_token (Some request_ip)
      in if \<not> captcha_valid then (Inr (False, Txt ''CAPTCHA: '' # captcha_msg), self, posted)
         else
           let ((rate_limit_ok, rate_msg), self') =
                  check_price_report_rate_limit cfg (clock env) self request_ip
           in if \<not> rate_limit_ok then (Inr (False, Txt ''Rate limit: '' # rate_msg), self', posted)
              else
                let fuel_type = get_or form_data ''fuel_type'' (PyStr '''')
                in case py_float (float_of_str env) (get_or form_data ''reported_price'' (PyInt 0)) of
                     Inl e \<Rightarrow> (Inr (False, invalid_price), self', posted)
                   | Inr price \<Rightarrow>
                       (case fuel_type of
                          PyStr ft \<Rightarrow>
                            let (price_valid, price_msg, _) =
                                   validate_price_dynamically self' (db env) (query_clock env) ft price None
                            in if \<not> price_valid
                               then (Inr (False, Txt ''Precio: '' # price_msg), self', posted)
                               else (Inr (True, all_passed), self', posted)
                        | _ \<Rightarrow> (Inl AttributeError, self', posted)))"

text \<open>
  The content checks of \<^verbatim>\<open>validate_review\<close>, after the two gates: \<^verbatim>\<open>strip\<close> on a name
  or comment that is not a string raises.
\<close>

definition review_content :: "environment \<Rightarrow> (string \<rightharpoonup> pyval) \<Rightarrow> py_error + bool \<times> message" where
  "review_content env form_data =
     (case get_or form_data ''name'' (PyStr '''') of
        PyStr raw_name \<Rightarrow>
          (case get_or form_data ''comment'' (PyStr '''') of
             PyStr raw_comment \<Rightarrow>
               let name = strip raw_name;
                   comment = strip raw_comment;
                   rating = get_or form_data ''rating'' PyNone
               in if length name < 2 then Inr (False, name_too_short)
                  else if length comment < 10 then Inr (False, comment_too_short)
                  else (case py_int (int_of_str env) rating of
                          Inl e \<Rightarrow> Inr (False, rating_invalid)
                        | Inr rating_int \<Rightarrow>
                            if \<not> (1 \<le> rating_int \<and> rating_int \<le> 5)
                            then Inr (False, rating_out_of_range)
                            else Inr (True, all_passed))
           | _ \<Rightarrow> Inl AttributeError)
      | _ \<Rightarrow> Inl AttributeError)"

text \<open>\<^verbatim>\<open>validate_review\<close>.\<close>

definition validate_review ::
  "settings \<Rightarrow> environment \<Rightarrow> protection_service \<Rightarrow> (string \<rightharpoonup> pyval) \<Rightarrow> string
     \<Rightarrow> (py_error + bool \<times> message) \<times> protection_service \<times> payload list"
where
  "validate_review cfg env self form_data request_ip =
     (let captcha_token = get_or form_data ''g-recaptcha-response'' PyNone;
          ((captcha_valid, captcha_msg), posted) =
             verify_recaptcha self (endpoint env) captcha_token (Some request_ip)
      in if \<not> captcha_valid then (Inr (False, Txt ''CAPTCHA: '' # captcha_msg), self, posted)
         else
           let ((rate_limit_ok, rate_msg), self') =
                  check_review_rate_limit cfg (clock env) self request_ip
           in if \<not> rate_limit_ok then (Inr (False, Txt ''Rate limit: '' # rate_msg), self', posted)
              else (review_content env form_data, self', posted))"

section \<open>Example data\<close>

text \<open>
  A service built from the default settings; a database with five current, validated
  magna prices of 10.0 and one with three (10, 90 and 200), all created at time 0; an
  environment whose clock reads half an hour, whose endpoint is unreachable, and whose
  parsers accept no string (it is used with strings that Python rejects as well).
\<close>

definition default_service :: protection_service where
  "default_service = init_service default_settings"

definition sample_row :: "real \<Rightarrow> gas_price" where
  "sample_row p =
     \<lparr> gp_fuel_type = ''magna'', gp_price = p, gp_created_at = 0, gp_is_current = True,
       gp_validation_status = ''validated'', gp_station_state = Some ''Jalisco'' \<rparr>"

definition five_samples :: database where
  "five_samples =
     \<lparr> gas_prices = [sample_row 10, sample_row 10, sample_row 10, sample_row 10, sample_row 10],
       ilike = (\<lambda>s pat. False), db_fails = False \<rparr>"

definition three_samples :: database where
  "three_samples =
     \<lparr> gas_prices = [sample_row 10, sample_row 90, sample_row 200],
       ilike = (\<lambda>s pat. False), db_fails = False \<rparr>"

definition example_env :: environment where
  "example_env =
     \<lparr> clock = 1800, query_clock = 1800, endpoint = (\<lambda>payload. RequestFailed),
       db = five_samples, float_of_str = (\<lambda>s. None), int_of_str = (\<lambda>s. None) \<rparr>"

text \<open>The service after three price reports and two reviews of one client.\<close>

definition full_windows :: protection_service where
  "full_windows =
     default_service
       \<lparr> price_reports := (\<lambda>ip. [])(''1.2.3.4'' := [0, 600, 1200]),
         reviews := (\<lambda>ip. [])(''1.2.3.4'' := [0, 600]) \<rparr>"

text \<open>
  Forms: the empty one; a token and a fuel type, with no price, with a price, with an
  unusable one.
\<close>

definition empty_form :: "string \<rightharpoonup> pyval" where
  "empty_form = Map.empty"

definition form_without_price :: "string \<rightharpoonup> pyval" where
  "form_without_price = [''g-recaptcha-response'' \<mapsto> PyStr ''tok'', ''fuel_type'' \<mapsto> PyStr ''magna'']"

definition form_with_price :: "real \<Rightarrow> string \<rightharpoonup> pyval" where
  "form_with_price p = form_without_price(''reported_price'' \<mapsto> PyFloat p)"

definition form_with_bad_price :: "string \<rightharpoonup> pyval" where
  "form_with_bad_price = form_without_price(''reported_price'' \<mapsto> PyStr ''abc'')"

text \<open>A review form with a token, a name, a comment and the given rating.\<close>

definition review_form :: "pyval \<Rightarrow> string \<rightharpoonup> pyval" where
  "review_form rating =
     [''g-recaptcha-response'' \<mapsto> PyStr ''tok'', ''name'' \<mapsto> PyStr ''Ana'',
      ''comment'' \<mapsto> PyStr '' buen servicio '', ''rating'' \<mapsto> rating]"

text \<open>The text of a message that interpolates no float.\<close>

definition plain_text :: "message \<Rightarrow> string" where
  "plain_text m = render (\<lambda>x. []) (\<lambda>x. []) m"

section \<open>Rate limiting: the first L calls pass, the next one does not\<close>







section \<open>Attestation: the token and the secret\<close>

text \<open>
  Claim C7. For every service state, endpoint and client address, verifying a missing
  token (\<open>None\<close>) or an empty one answers \<open>(False, "Token CAPTCHA requerido")\<close> and posts
  no request to the verification endpoint; both pipelines, given a form whose token is
  missing or empty, reject with that reason and leave the service as it was, whatever
  the rate-limit windows, the database and the rest of the form hold.
\<close>

theorem empty_token_rejected_without_request:
  "verify_recaptcha self ep PyNone user_ip = ((False, token_required), [])
   \<and> verify_recaptcha self ep (PyStr '''') user_ip = ((False, token_required), [])
   \<and> validate_price_report cfg env self (form_data(''g-recaptcha-response'' := None)) ip =
       (Inr (False, Txt ''CAPTCHA: '' # token_required), self, [])
   \<and> validate_price_report cfg env self (form_data(''g-recaptcha-response'' \<mapsto> PyStr '''')) ip =
       (Inr (False, Txt ''CAPTCHA: '' # token_required), self, [])
   \<and> validate_review cfg env self (form_data(''g-recaptcha-response'' := None)) ip =
       (Inr (False, Txt ''CAPTCHA: '' # token_required), self, [])
   \<and> validate_review cfg env self (form_data(''g-recaptcha-response'' \<mapsto> PyStr '''')) ip =
       (Inr (False, Txt ''CAPTCHA: '' # token_required), self, [])"
  by (simp add: verify_recaptcha_def validate_price_report_def validate_review_def get_or_def)

text \<open>
  Claim C8. With an empty secret, verifying any non-empty token answers
  \<open>(True, "Bypassed in development")\<close> and posts no request; each pipeline then runs its
  rate-limit check: the service it leaves is the one the check leaves, nothing has been
  posted, and when the check refuses, the pipeline's reason is the check's message behind
  the prefix \<open>"Rate limit: "\<close>.
\<close>

theorem unset_secret_bypasses_to_rate_limit:
  assumes "recaptcha_secret self = []" and "token \<noteq> []"
    and "form_data ''g-recaptcha-response'' = Some (PyStr token)"
  shows "verify_recaptcha self ep (PyStr token) user_ip = ((True, bypassed), [])
   \<and> snd (validate_price_report cfg env self form_data ip) =
       (snd (check_price_report_rate_limit cfg (clock env) self ip), [])
   \<and> (\<not> fst (fst (check_price_report_rate_limit cfg (clock env) self ip)) \<longrightarrow>
        fst (validate_price_report cfg env self form_data ip) =
          Inr (False, Txt ''Rate limit: '' #
                 snd (fst (check_price_report_rate_limit cfg (clock env) self ip))))
   \<and> snd (validate_review cfg env self form_data ip) =
       (snd (check_review_rate_limit cfg (clock env) self ip), [])
   \<and> (\<not> fst (fst (check_review_rate_limit cfg (clock env) self ip)) \<longrightarrow>
        fst (validate_review cfg env self form_data ip) =
          Inr (False, Txt ''Rate limit: '' #
                 snd (fst (check_review_rate_limit cfg (clock env) self ip))))"
proof -
  have cap: "verify_recaptcha self ep' (PyStr token) ip' = ((True, bypassed), [])" for ep' ip'
    using assms(1,2) by (simp add: verify_recaptcha_def)
  have tok: "get_or form_data ''g-recaptcha-response'' PyNone = PyStr token"
    using assms(3) by (simp add: get_or_def)
  show ?thesis
    by (simp add: cap tok validate_price_report_def validate_review_def split_beta Let_def
          split: sum.splits pyval.splits)
qed

section \<open>Facts about the example data\<close>

lemma example_default_fields:
  "min_samples default_service = 5" "price_tolerance default_service = 15 / 100"
  "freshness_days default_service = 30" "recaptcha_secret default_service = []"
  "recaptcha_secret full_windows = []"
  "price_reports default_service = (\<lambda>ip. [])" "reviews default_service = (\<lambda>ip. [])"
  "price_reports_per_hour default_settings = 3" "reviews_per_day default_settings = 2"
  by (simp_all add: default_service_def full_windows_def init_service_def default_settings_def)

lemma example_env_fields:
  "clock example_env = 1800" "query_clock example_env = 1800" "db example_env = five_samples"
  "endpoint example_env = (\<lambda>payload. RequestFailed)"
  "float_of_str example_env = (\<lambda>s. None)" "int_of_str example_env = (\<lambda>s. None)"
  by (simp_all add: example_env_def)

lemma example_form_fields:
  "get_or form_without_price ''g-recaptcha-response'' PyNone = PyStr ''tok''"
  "get_or (form_with_price p) ''g-recaptcha-response'' PyNone = PyStr ''tok''"
  "get_or form_with_bad_price ''g-recaptcha-response'' PyNone = PyStr ''tok''"
  "get_or form_without_price ''fuel_type'' (PyStr []) = PyStr ''magna''"
  "get_or (form_with_price p) ''fuel_type'' (PyStr []) = PyStr ''magna''"
  "get_or form_with_bad_price ''fuel_type'' (PyStr []) = PyStr ''magna''"
  "form_without_price ''reported_price'' = None"
  "form_with_price p ''reported_price'' = Some (PyFloat p)"
  "form_with_bad_price ''reported_price'' = Some (PyStr ''abc'')"
  "get_or form_without_price ''reported_price'' (PyInt 0) = PyInt 0"
  "get_or (form_with_price p) ''reported_price'' (PyInt 0) = PyFloat p"
  "get_or form_with_bad_price ''reported_price'' (PyInt 0) = PyStr ''abc''"
  by (simp_all add: get_or_def form_without_price_def form_with_price_def form_with_bad_price_def)

lemma example_review_form_fields:
  "review_form r ''g-recaptcha-response'' = Some (PyStr ''tok'')"
  "get_or (review_form r) ''g-recaptcha-response'' PyNone = PyStr ''tok''"
  by (simp_all add: get_or_def review_form_def)

lemma example_bypass:
  "verify_recaptcha full_windows ep (PyStr ''tok'') user_ip = ((True, bypassed), [])"
  "verify_recaptcha default_service ep (PyStr ''tok'') user_ip = ((True, bypassed), [])"
  by (simp_all add: verify_recaptcha_def example_default_fields)

lemma example_no_token:
  "verify_recaptcha self ep (get_or empty_form ''g-recaptcha-response'' PyNone) user_ip =
     ((False, token_required), [])"
  by (simp add: verify_recaptcha_def get_or_def empty_form_def)

lemma example_full_price_window:
  "check_price_report_rate_limit default_settings 1800 full_windows ''1.2.3.4'' =
     ((False, price_limit_exceeded 3 3), full_windows)"
  by (simp add: check_price_report_rate_limit_def full_windows_def default_settings_def)

lemma example_full_review_window:
  "check_review_rate_limit default_settings 1800 full_windows ''1.2.3.4'' =
     ((False, review_limit_exceeded 2 2), full_windows)"
  by (simp add: check_review_rate_limit_def full_windows_def default_settings_def)

lemma example_first_slot:
  "check_price_report_rate_limit default_settings 1800 default_service ''1.2.3.4'' =
     ((True, rate_limit_ok),
      default_service\<lparr>price_reports := (price_reports default_service)(''1.2.3.4'' := [1800])\<rparr>)"
  "check_review_rate_limit default_settings 1800 default_service ''1.2.3.4'' =
     ((True, rate_limit_ok),
      default_service\<lparr>reviews := (reviews default_service)(''1.2.3.4'' := [1800])\<rparr>)"
  by (simp_all add: check_price_report_rate_limit_def check_review_rate_limit_def
        example_default_fields)

lemma example_fallback_magna:
  "validate_with_fallback (default_service\<lparr>price_reports := w\<rparr>) ''magna'' p =
     (15 \<le> p \<and> p \<le> 35,
      if 15 \<le> p \<and> p \<le> 35 then fallback_valid else outside_fallback_range 15 35,
      [(''fallback_mode'', InfoBool True),
       (''valid_range'', InfoDict [(''min'', InfoNum 15), (''max'', InfoNum 35)]),
       (''reported_price'', InfoNum p)])"
  "validate_with_fallback default_service ''magna'' p =
     (15 \<le> p \<and> p \<le> 35,
      if 15 \<le> p \<and> p \<le> 35 then fallback_valid else outside_fallback_range 15 35,
      [(''fallback_mode'', InfoBool True),
       (''valid_range'', InfoDict [(''min'', InfoNum 15), (''max'', InfoNum 35)]),
       (''reported_price'', InfoNum p)])"
  by (auto simp: validate_with_fallback_def default_service_def init_service_def
        default_settings_def lower_def lower_char_def Let_def)

lemma example_five_rows:
  "cutoff \<le> 0 \<Longrightarrow>
     execute_query five_samples (lower ''magna'') cutoff None = Inr [10, 10, 10, 10, 10]"
  by (simp add: execute_query_def select_prices_def five_samples_def sample_row_def lower_def
        lower_char_def)

lemma example_three_rows:
  "cutoff \<le> 0 \<Longrightarrow>
     execute_query three_samples (lower ''magna'') cutoff None = Inr [10, 90, 200]"
  "cutoff \<le> 0 \<Longrightarrow>
     select_prices three_samples (lower ''magna'') cutoff None = [10, 90, 200]"
  by (simp_all add: execute_query_def select_prices_def three_samples_def sample_row_def lower_def
        lower_char_def)

lemma example_review_content:
  "review_content example_env (review_form (PyInt 9)) = Inr (False, rating_out_of_range)"
  by (simp add: review_content_def review_form_def get_or_def strip_def is_space_def)

theorem unset_secret_bypasses_to_rate_limit_witness:
  "verify_recaptcha full_windows (endpoint example_env) (PyStr ''tok'') (Some ''1.2.3.4'') =
     ((True, bypassed), [])
   \<and> validate_price_report default_settings example_env full_windows (form_with_price 20) ''1.2.3.4'' =
       (Inr (False, Txt ''Rate limit: '' # price_limit_exceeded 3 3), full_windows, [])
   \<and> validate_review default_settings example_env full_windows (review_form (PyInt 5)) ''1.2.3.4'' =
       (Inr (False, Txt ''Rate limit: '' # review_limit_exceeded 2 2), full_windows, [])"
proof -
  have secret: "recaptcha_secret full_windows = []"
    by (simp add: example_default_fields)
  have f1: "form_with_price 20 ''g-recaptcha-response'' = Some (PyStr ''tok'')"
    by (simp add: form_with_price_def form_without_price_def)
  have f2: "review_form (PyInt 5) ''g-recaptcha-response'' = Some (PyStr ''tok'')"
    by (simp add: example_review_form_fields)
  show ?thesis
    using unset_secret_bypasses_to_rate_limit
            [where self = full_windows and token = "''tok''" and form_data = "form_with_price 20"
               and ep = "endpoint example_env" and user_ip = "Some ''1.2.3.4''"
               and cfg = default_settings and env = example_env and ip = "''1.2.3.4''"]
          unset_secret_bypasses_to_rate_limit
            [where self = full_windows and token = "''tok''" and form_data = "review_form (PyInt 5)"
               and ep = "endpoint example_env" and user_ip = "Some ''1.2.3.4''"
               and cfg = default_settings and env = example_env and ip = "''1.2.3.4''"]
          secret f1 f2
    by (simp add: example_env_fields example_full_price_window example_full_review_window
          prod_eq_iff)
qed

section \<open>Price validation: the fallback range, the fuel type, the diagnostics\<close>

lemma lower_char_idem: "lower_char (lower_char c) = lower_char c"
proof -
  have small: "of_char c < (256::nat)" by simp
  show ?thesis
    using small unfolding lower_char_def Let_def
    by (auto simp del: nat_of_char_less_256)
qed

lemma lower_idem: "lower (lower s) = lower s"
  by (simp add: lower_def lower_char_idem)

text \<open>
  Entering the \<^verbatim>\<open>async with\<close> block raises for the object that \<^verbatim>\<open>get_async_session\<close>
  returns, so every call ends in the \<^verbatim>\<open>except\<close> clause.
\<close>

lemma dynamic_is_fallback:
  "validate_price_dynamically self store now fuel_type reported_price region =
     validate_with_fallback self fuel_type reported_price"
  by (simp add: validate_price_dynamically_def get_async_session_def)

lemma fallback_lower:
  "validate_with_fallback self (lower fuel_type) reported_price =
     validate_with_fallback self fuel_type reported_price"
  by (simp add: validate_with_fallback_def lower_idem)

text \<open>
  What the body of the block computes in an open session whose query succeeds and returns
  at least \<open>min_samples\<close> prices, and at least one: the band around their mean, both
  bounds included.
\<close>

lemma in_session_market_band:
  assumes "execute_query session (lower fuel_type)
             (now - real_of_int (freshness_days self) * 86400) region = Inr prices"
    and "prices \<noteq> []" and "min_samples self \<le> int (length prices)"
  shows "map_sum id fst (validate_in_session self session now fuel_type reported_price region) =
           Inr (sum_list prices / real (length prices) * (1 - price_tolerance self) \<le> reported_price
                \<and> reported_price \<le> sum_list prices / real (length prices) * (1 + price_tolerance self))"
  using assms by (simp add: validate_in_session_def mean_def Let_def)

text \<open>
  Claim C1, evaluated on the code. Five fresh, current, validated magna samples of 10.0,
  tolerance 15 percent, minimum 5 samples, reported price 11.4. The query selects the
  five samples, and the body of the block, run in an open session, accepts 11.4 within the
  band from 8.5 to 11.5. \<^verbatim>\<open>validate_price_dynamically\<close> itself never opens the session:
  it answers from the static magna range 15 to 35 and rejects 11.4.
\<close>

theorem market_band_not_reached:
  "execute_query five_samples (lower ''magna'')
      (86400 - real_of_int (freshness_days default_service) * 86400) None =
     Inr [10, 10, 10, 10, 10]
   \<and> min_samples default_service = 5
   \<and> price_tolerance default_service = 15 / 100
   \<and> validate_in_session default_service five_samples 86400 ''magna'' (114 / 10) None =
       Inr (True, within_market_range,
            [(''market_average'', InfoNum 10), (''tolerance_percent'', InfoNum 15),
             (''valid_range'', InfoDict [(''min'', InfoNum (85 / 10)), (''max'', InfoNum (115 / 10))]),
             (''samples_count'', InfoInt 5), (''reported_price'', InfoNum (114 / 10))])
   \<and> validate_price_dynamically default_service five_samples 86400 ''magna'' (114 / 10) None =
       (False, outside_fallback_range 15 35,
        [(''fallback_mode'', InfoBool True),
         (''valid_range'', InfoDict [(''min'', InfoNum 15), (''max'', InfoNum 35)]),
         (''reported_price'', InfoNum (114 / 10))])"
proof (intro conjI)
  show "validate_in_session default_service five_samples 86400 ''magna'' (114 / 10) None =
       Inr (True, within_market_range,
            [(''market_average'', InfoNum 10), (''tolerance_percent'', InfoNum 15),
             (''valid_range'', InfoDict [(''min'', InfoNum (85 / 10)), (''max'', InfoNum (115 / 10))]),
             (''samples_count'', InfoInt 5), (''reported_price'', InfoNum (114 / 10))])"
    by (simp add: validate_in_session_def example_five_rows example_default_fields mean_def
          round2_def round_half_even_def)
qed (simp_all add: example_five_rows example_default_fields dynamic_is_fallback
       example_fallback_magna)

text \<open>
  Claim C3. When the query returns fewer than \<open>min_samples\<close> prices, the validation is
  the one of the static range table, whatever the returned prices are: the body of the
  block, run in an open session, hands over to \<^verbatim>\<open>_validate_with_fallback\<close> (also when
  the query fails), and so does \<^verbatim>\<open>validate_price_dynamically\<close>. That validation
  looks the lowercased fuel type up in the table: with no entry the price is accepted
  whatever it is, with an entry it is accepted exactly when it lies between the entry's
  minimum and maximum, both included.
\<close>

theorem few_samples_use_fallback_range:
  assumes "int (length (select_prices store (lower fuel_type)
                  (now - real_of_int (freshness_days self) * 86400) region)) < min_samples self"
  shows "(case validate_in_session self store now fuel_type reported_price region of
            Inl e \<Rightarrow> validate_with_fallback self fuel_type reported_price
          | Inr result \<Rightarrow> result) =
           validate_with_fallback self fuel_type reported_price
       \<and> validate_price_dynamically self store now fuel_type reported_price region =
           validate_with_fallback self fuel_type reported_price
       \<and> fst (validate_with_fallback self fuel_type reported_price) =
           (case map_of (fallback_ranges self) (lower fuel_type) of
              None \<Rightarrow> True
            | Some ranges \<Rightarrow> range_min ranges \<le> reported_price \<and> reported_price \<le> range_max ranges)"
  using assms
  by (simp add: validate_in_session_def execute_query_def dynamic_is_fallback
        validate_with_fallback_def Let_def split: option.splits)

theorem few_samples_use_fallback_range_witness:
  "validate_in_session default_service three_samples 86400 ''magna'' 16 None =
     Inr (validate_with_fallback default_service ''magna'' 16)
   \<and> validate_price_dynamically default_service three_samples 86400 ''magna'' 16 None =
       validate_with_fallback default_service ''magna'' 16
   \<and> fst (validate_with_fallback default_service ''magna'' 16)
   \<and> validate_price_dynamically default_service three_samples 86400 ''magna'' 40 None =
       validate_with_fallback default_service ''magna'' 40
   \<and> \<not> fst (validate_with_fallback default_service ''magna'' 40)"
proof -
  have few: "int (length (select_prices three_samples (lower ''magna'')
                    (86400 - real_of_int (freshness_days default_service) * 86400) None))
               < min_samples default_service"
    by (simp add: example_three_rows example_default_fields)
  have open_session:
    "validate_in_session default_service three_samples 86400 ''magna'' 16 None =
       Inr (validate_with_fallback default_service ''magna'' 16)"
    by (simp add: validate_in_session_def example_three_rows example_default_fields)
  show ?thesis
    using few_samples_use_fallback_range [OF few, of 16]
      few_samples_use_fallback_range [OF few, of 40] open_session
    by (simp add: example_fallback_magna)
qed

text \<open>
  Claim C9. Validating a price for a fuel type gives the same result (verdict, message
  and diagnostics) as validating it for the lowercased fuel type, for every price,
  region, service and database: in \<^verbatim>\<open>validate_price_dynamically\<close>, in the body of its
  block run in an open session, and in \<^verbatim>\<open>_validate_with_fallback\<close>.
\<close>

theorem fuel_type_case_insensitive:
  "validate_price_dynamically self store now (lower fuel_type) reported_price region =
     validate_price_dynamically self store now fuel_type reported_price region
   \<and> validate_in_session self session now (lower fuel_type) reported_price region =
     validate_in_session self session now fuel_type reported_price region
   \<and> validate_with_fallback self (lower fuel_type) reported_price =
     validate_with_fallback self fuel_type reported_price"
  unfolding dynamic_is_fallback validate_in_session_def lower_idem fallback_lower
  by simp

text \<open>
  Claim C6, as stated, fails: for a fuel type with no configured range the diagnostics
  are the empty dictionary, and for magna on the fallback path they hold no sample count.
\<close>

theorem diagnostics_missing_counterexample:
  "snd (snd (validate_price_dynamically default_service five_samples 86400 ''gas_lp'' 20 None)) = []
   \<and> map_of (snd (snd (validate_price_dynamically default_service three_samples 86400 ''magna'' 16 None)))
         ''samples_count'' = None"
  by (simp add: dynamic_is_fallback validate_with_fallback_def lower_def lower_char_def
        default_service_def init_service_def default_settings_def)

text \<open>
  Claim C6, amended. The diagnostics depend on the path. Fallback with no range for the
  lowercased fuel type: the empty dictionary. Fallback with a range: \<open>fallback_mode\<close> true,
  the range's two bounds, and the reported price; no sample count. Market path (open
  session, successful query, at least \<open>min_samples\<close> prices and at least one): the mean,
  the tolerance in percent, the two bounds of the band, each rounded to two decimals, the
  sample count, and the reported price; no key names the basis.
\<close>

theorem diagnostics_by_path:
  "(map_of (fallback_ranges self) (lower fuel_type) = None \<longrightarrow>
      snd (snd (validate_with_fallback self fuel_type reported_price)) = [])
   \<and> (\<forall>ranges. map_of (fallback_ranges self) (lower fuel_type) = Some ranges \<longrightarrow>
      snd (snd (validate_with_fallback self fuel_type reported_price)) =
        [(''fallback_mode'', InfoBool True),
         (''valid_range'',
            InfoDict [(''min'', InfoNum (range_min ranges)), (''max'', InfoNum (range_max ranges))]),
         (''reported_price'', InfoNum reported_price)])
   \<and> (\<forall>prices market_avg.
        execute_query session (lower fuel_type)
          (now - real_of_int (freshness_days self) * 86400) region = Inr prices \<and>
        prices \<noteq> [] \<and> min_samples self \<le> int (length prices) \<and>
        market_avg = sum_list prices / real (length prices) \<longrightarrow>
        map_sum id (\<lambda>result. snd (snd result))
          (validate_in_session self session now fuel_type reported_price region) =
        Inr [(''market_average'', InfoNum (round2 market_avg)),
             (''tolerance_percent'', InfoNum (price_tolerance self * 100)),
             (''valid_range'',
                InfoDict [(''min'', InfoNum (round2 (market_avg * (1 - price_tolerance self)))),
                          (''max'', InfoNum (round2 (market_avg * (1 + price_tolerance self))))]),
             (''samples_count'', InfoInt (int (length prices))),
             (''reported_price'', InfoNum reported_price)])"
  by (simp add: validate_with_fallback_def validate_in_session_def mean_def Let_def)

theorem diagnostics_by_path_witness:
  "snd (snd (validate_with_fallback default_service ''gas_lp'' 20)) = []
   \<and> snd (snd (validate_with_fallback default_service ''Magna'' 16)) =
        [(''fallback_mode'', InfoBool True),
         (''valid_range'', InfoDict [(''min'', InfoNum 15), (''max'', InfoNum 35)]),
         (''reported_price'', InfoNum 16)]
   \<and> map_sum id (\<lambda>result. snd (snd result))
          (validate_in_session default_service five_samples 86400 ''magna'' 12 None) =
        Inr [(''market_average'', InfoNum 10), (''tolerance_percent'', InfoNum 15),
             (''valid_range'', InfoDict [(''min'', InfoNum (85 / 10)), (''max'', InfoNum (115 / 10))]),
             (''samples_count'', InfoInt 5), (''reported_price'', InfoNum 12)]"
proof -
  have cfg:
    "map_of (fallback_ranges default_service) (lower ''gas_lp'') = None"
    "map_of (fallback_ranges default_service) (lower ''Magna'') = Some \<lparr>range_min = 15, range_max = 35\<rparr>"
    by (simp_all add: default_service_def init_service_def default_settings_def lower_def
          lower_char_def char_of_def bit_Suc_0_iff)
  show ?thesis
    using diagnostics_by_path [of default_service "''gas_lp''" 20 five_samples 86400 None]
      diagnostics_by_path [of default_service "''Magna''" 16 five_samples 86400 None]
      diagnostics_by_path [of default_service "''magna''" 12 five_samples 86400 None]
    by (simp add: example_five_rows example_default_fields cfg round2_def round_half_even_def)
qed

section \<open>The pipelines: slots, order of the gates, reasons\<close>

text \<open>
  Claim C4, as stated, fails: a submission that passes attestation while the client's
  window already holds three entries of the last hour is refused by the rate limiter,
  and no entry is appended for it.
\<close>

theorem attested_but_no_slot_counterexample:
  "fst (fst (verify_recaptcha full_windows (endpoint example_env)
               (get_or (form_with_price 20) ''g-recaptcha-response'' PyNone) (Some ''1.2.3.4'')))
   \<and> fst (validate_price_report default_settings example_env full_windows (form_with_price 20)
            ''1.2.3.4'') =
       Inr (False, Txt ''Rate limit: '' # price_limit_exceeded 3 3)
   \<and> price_reports
        (fst (snd (validate_price_report default_settings example_env full_windows
                     (form_with_price 20) ''1.2.3.4''))) ''1.2.3.4'' =
       price_reports full_windows ''1.2.3.4''"
  by (simp add: validate_price_report_def example_form_fields example_bypass example_env_fields
        example_full_price_window)

text \<open>
  Claim C4, amended. After a price-report submission the client's window is: unchanged
  when attestation rejects (the whole service is unchanged); the pruned window when
  attestation passes and the pruned window already holds the limit; the pruned window
  with the clock reading appended when attestation passes and the pruned window is below
  the limit. A submission rejected by the price validation (reason \<open>"Precio: ..."\<close>) has
  passed attestation and has its entry appended.
\<close>

theorem slot_consumed_after_both_gates:
  "(let token = get_or form_data ''g-recaptcha-response'' PyNone;
        attested = fst (fst (verify_recaptcha self (endpoint env) token (Some ip)));
        pruned = popleft_old (clock env - 3600) (price_reports self ip);
        outcome = validate_price_report cfg env self form_data ip;
        self' = fst (snd outcome)
    in price_reports self' ip =
         (if \<not> attested then price_reports self ip
          else if int (length pruned) \<ge> price_reports_per_hour cfg then pruned
          else pruned @ [clock env])
       \<and> (\<not> attested \<longrightarrow> self' = self)
       \<and> (\<forall>price_msg. fst outcome = Inr (False, Txt ''Precio: '' # price_msg) \<longrightarrow>
             attested \<and> price_reports self' ip = pruned @ [clock env]))"
  by (auto simp: Let_def validate_price_report_def check_price_report_rate_limit_def split_beta
        invalid_price_def split: sum.splits pyval.splits)

lemma example_price_gate:
  "validate_price_report default_settings example_env default_service (form_with_price 40) ''1.2.3.4'' =
     (Inr (False, Txt ''Precio: '' # outside_fallback_range 15 35),
      default_service\<lparr>price_reports := (price_reports default_service)(''1.2.3.4'' := [1800])\<rparr>,
      [])"
  by (simp add: validate_price_report_def example_form_fields example_bypass example_env_fields
        example_first_slot dynamic_is_fallback example_fallback_magna)

theorem slot_consumed_after_both_gates_witness:
  "fst (snd (validate_price_report default_settings example_env full_windows empty_form ''1.2.3.4'')) =
     full_windows
   \<and> fst (validate_price_report default_settings example_env default_service (form_with_price 40)
            ''1.2.3.4'') = Inr (False, Txt ''Precio: '' # outside_fallback_range 15 35)
   \<and> price_reports
        (fst (snd (validate_price_report default_settings example_env default_service
                     (form_with_price 40) ''1.2.3.4''))) ''1.2.3.4'' = [1800]"
proof -
  have rejected: "\<not> fst (fst (verify_recaptcha full_windows (endpoint example_env)
                    (get_or empty_form ''g-recaptcha-response'' PyNone) (Some ''1.2.3.4'')))"
    by (simp add: example_no_token)
  have priced: "fst (validate_price_report default_settings example_env default_service
                  (form_with_price 40) ''1.2.3.4'') =
                Inr (False, Txt ''Precio: '' # outside_fallback_range 15 35)"
    by (simp add: example_price_gate)
  show ?thesis
    using slot_consumed_after_both_gates
            [of empty_form full_windows example_env "''1.2.3.4''" default_settings]
          slot_consumed_after_both_gates
            [of "form_with_price 40" default_service example_env "''1.2.3.4''" default_settings]
          rejected priced
    by (simp add: Let_def example_env_fields example_form_fields example_bypass
          example_default_fields)
qed

text \<open>
  Claim C5, as stated, fails: for a form without a token the attestation gate's message
  is \<open>"Token CAPTCHA requerido"\<close> and the pipeline's reason is
  \<open>"CAPTCHA: Token CAPTCHA requerido"\<close>, a different string.
\<close>

theorem reason_is_prefixed_counterexample:
  "fst (verify_recaptcha default_service (endpoint example_env) PyNone (Some ''1.2.3.4'')) =
     (False, [Txt ''Token CAPTCHA requerido''])
   \<and> fst (validate_price_report default_settings example_env default_service empty_form ''1.2.3.4'') =
     Inr (False, [Txt ''CAPTCHA: '', Txt ''Token CAPTCHA requerido''])
   \<and> plain_text [Txt ''Token CAPTCHA requerido''] = ''Token CAPTCHA requerido''
   \<and> plain_text [Txt ''CAPTCHA: '', Txt ''Token CAPTCHA requerido''] =
       ''CAPTCHA: Token CAPTCHA requerido''
   \<and> plain_text [Txt ''CAPTCHA: '', Txt ''Token CAPTCHA requerido''] \<noteq>
       plain_text [Txt ''Token CAPTCHA requerido'']"
  by (simp add: verify_recaptcha_def validate_price_report_def get_or_def token_required_def
        plain_text_def render_def empty_form_def)

text \<open>
  Claim C5, amended. Both pipelines run attestation, then the rate-limit check, then the
  content check, and stop at the first rejection. Rejected by attestation: the reason is
  \<open>"CAPTCHA: "\<close> followed by the gate's message and the service is unchanged. Rejected by
  the rate limiter: the reason is \<open>"Rate limit: "\<close> followed by its message, and the
  result holds nothing but what the two gates produced. Price report past both gates,
  with a string fuel type and a convertible price: rejected by the price validation with
  the reason \<open>"Precio: "\<close> followed by its message, or accepted. Review past both gates:
  the result of the content checks, whose reasons are the pipeline's own.
\<close>

theorem gates_in_order_reason_prefixed:
  "(let token = get_or form_data ''g-recaptcha-response'' PyNone;
        captcha = fst (verify_recaptcha self (endpoint env) token (Some ip));
        posted = snd (verify_recaptcha self (endpoint env) token (Some ip));
        rate = fst (check_price_report_rate_limit cfg (clock env) self ip);
        self1 = snd (check_price_report_rate_limit cfg (clock env) self ip);
        review_rate = fst (check_review_rate_limit cfg (clock env) self ip);
        self2 = snd (check_review_rate_limit cfg (clock env) self ip)
    in (\<not> fst captcha \<longrightarrow>
          validate_price_report cfg env self form_data ip =
            (Inr (False, Txt ''CAPTCHA: '' # snd captcha), self, posted) \<and>
          validate_review cfg env self form_data ip =
            (Inr (False, Txt ''CAPTCHA: '' # snd captcha), self, posted))
     \<and> (fst captcha \<and> \<not> fst rate \<longrightarrow>
          validate_price_report cfg env self form_data ip =
            (Inr (False, Txt ''Rate limit: '' # snd rate), self1, posted))
     \<and> (fst captcha \<and> \<not> fst review_rate \<longrightarrow>
          validate_review cfg env self form_data ip =
            (Inr (False, Txt ''Rate limit: '' # snd review_rate), self2, posted))
     \<and> (fst captcha \<and> fst rate \<longrightarrow>
          (\<forall>ft price valid msg diag.
             get_or form_data ''fuel_type'' (PyStr '''') = PyStr ft \<and>
             py_float (float_of_str env) (get_or form_data ''reported_price'' (PyInt 0)) = Inr price \<and>
             validate_price_dynamically self1 (db env) (query_clock env) ft price None =
               (valid, msg, diag) \<longrightarrow>
             validate_price_report cfg env self form_data ip =
               (Inr (if valid then (True, all_passed) else (False, Txt ''Precio: '' # msg)),
                self1, posted)))
     \<and> (fst captcha \<and> fst review_rate \<longrightarrow>
          validate_review cfg env self form_data ip = (review_content env form_data, self2, posted)))"
  by (auto simp: Let_def validate_price_report_def validate_review_def split_beta)

theorem gates_in_order_reason_prefixed_witness:
  "validate_price_report default_settings example_env default_service empty_form ''1.2.3.4'' =
     (Inr (False, Txt ''CAPTCHA: '' # token_required), default_service, [])
   \<and> validate_review default_settings example_env default_service empty_form ''1.2.3.4'' =
     (Inr (False, Txt ''CAPTCHA: '' # token_required), default_service, [])
   \<and> validate_price_report default_settings example_env full_windows (form_with_price 20) ''1.2.3.4'' =
     (Inr (False, Txt ''Rate limit: '' # price_limit_exceeded 3 3), full_windows, [])
   \<and> validate_review default_settings example_env full_windows (review_form (PyInt 5)) ''1.2.3.4'' =
     (Inr (False, Txt ''Rate limit: '' # review_limit_exceeded 2 2), full_windows, [])
   \<and> validate_price_report default_settings example_env default_service (form_with_price 40) ''1.2.3.4'' =
     (Inr (False, Txt ''Precio: '' # outside_fallback_range 15 35),
      default_service\<lparr>price_reports := (price_reports default_service)(''1.2.3.4'' := [1800])\<rparr>, [])
   \<and> validate_review default_settings example_env default_service (review_form (PyInt 9)) ''1.2.3.4'' =
     (Inr (False, rating_out_of_range),
      default_service\<lparr>reviews := (reviews default_service)(''1.2.3.4'' := [1800])\<rparr>, [])"
proof -
  have priced:
    "get_or (form_with_price 40) ''fuel_type'' (PyStr '''') = PyStr ''magna'' \<and>
     py_float (float_of_str example_env) (get_or (form_with_price 40) ''reported_price'' (PyInt 0)) =
       Inr 40 \<and>
     validate_price_dynamically
       (default_service\<lparr>price_reports := (price_reports default_service)(''1.2.3.4'' := [1800])\<rparr>)
       (db example_env) (query_clock example_env) ''magna'' 40 None =
       (False, outside_fallback_range 15 35,
        [(''fallback_mode'', InfoBool True),
         (''valid_range'', InfoDict [(''min'', InfoNum 15), (''max'', InfoNum 35)]),
         (''reported_price'', InfoNum 40)])"
    by (simp add: example_form_fields dynamic_is_fallback example_fallback_magna)
  show ?thesis
    using gates_in_order_reason_prefixed
            [of empty_form default_service example_env "''1.2.3.4''" default_settings]
          gates_in_order_reason_prefixed
            [of "form_with_price 20" full_windows example_env "''1.2.3.4''" default_settings]
          gates_in_order_reason_prefixed
            [of "review_form (PyInt 5)" full_windows example_env "''1.2.3.4''" default_settings]
          gates_in_order_reason_prefixed
            [of "form_with_price 40" default_service example_env "''1.2.3.4''" default_settings]
          gates_in_order_reason_prefixed
            [of "review_form (PyInt 9)" default_service example_env "''1.2.3.4''" default_settings]
          priced
    by (auto simp: Let_def example_no_token example_form_fields example_review_form_fields
          example_bypass example_env_fields example_full_price_window example_full_review_window
          example_first_slot example_review_content)
qed



end
